theory Spec2Isabelle
  imports Complex_Main
begin

section \<open>Values, exceptions and interpreter primitives\<close>

text \<open>
  The module \<^verbatim>\<open>dyson_pure_state_v2.py\<close> works on what \<^verbatim>\<open>json.loads\<close> returns:
  \<^verbatim>\<open>None\<close>, booleans, integers, floats, strings, lists and dictionaries with string
  keys. A float is a binary64 number: a finite value (a rational), a negative zero, an
  infinity or a NaN. A dictionary is kept as an association list read with
  \<^const>\<open>map_of\<close>.
\<close>

datatype pyfloat = Finite rat | NegZero | PosInf | NegInf | NaN

datatype pyval =
    PyNone
  | PyBool bool
  | PyInt int
  | PyFloat pyfloat
  | PyStr string
  | PyList "pyval list"
  | PyDict "(string \<times> pyval) list"

text \<open>
  The exceptions the module can let through. \<open>Unmodelled\<close> is not an exception of the
  interpreter: it is the answer of the sample primitives of section
  \<open>A sample interpretation\<close> on the inputs they do not cover.
\<close>

datatype error =
    JSONDecodeError
  | KeyError pyval
  | IndexError
  | TypeError
  | ValueError
  | OverflowError
  | Unmodelled

text \<open>A raised exception ends the computation: the rest runs only on a returned value.\<close>

definition ebind :: "error + 'a \<Rightarrow> ('a \<Rightarrow> error + 'b) \<Rightarrow> error + 'b" where
  "ebind m f = (case m of Inl e \<Rightarrow> Inl e | Inr v \<Rightarrow> f v)"

text \<open>
  The library functions the module calls are not part of it: \<^verbatim>\<open>json.loads\<close>,
  \<^verbatim>\<open>int\<close>, \<^verbatim>\<open>float\<close> and \<^verbatim>\<open>str\<close> are parameters of the model, and every theorem
  below holds for whatever they compute.
\<close>

record builtins =
  json_loads :: "string \<Rightarrow> error + pyval"
  py_int :: "pyval \<Rightarrow> error + int"
  py_float :: "pyval \<Rightarrow> error + pyfloat"
  py_str :: "pyval \<Rightarrow> error + string"

text \<open>\<^verbatim>\<open>obj[key]\<close> with a string key: only a dictionary can answer.\<close>

fun getitem :: "pyval \<Rightarrow> string \<Rightarrow> error + pyval" where
  "getitem (PyDict d) k = (case map_of d k of None \<Rightarrow> Inl (KeyError (PyStr k)) | Some v \<Rightarrow> Inr v)"
| "getitem _ k = Inl TypeError"

text \<open>
  \<^verbatim>\<open>obj[i]\<close> with an integer: a list or a string is indexed (a negative index counts
  from the end), a dictionary has no integer key, anything else is not subscriptable.
\<close>

definition seq_index :: "'a list \<Rightarrow> int \<Rightarrow> error + 'a" where
  "seq_index xs i =
     (if 0 \<le> i \<and> i < int (length xs) then Inr (xs ! nat i)
      else if i < 0 \<and> - int (length xs) \<le> i then Inr (xs ! nat (int (length xs) + i))
      else Inl IndexError)"

fun subscript :: "pyval \<Rightarrow> int \<Rightarrow> error + pyval" where
  "subscript (PyList xs) i = seq_index xs i"
| "subscript (PyStr s) i = ebind (seq_index s i) (\<lambda>c. Inr (PyStr [c]))"
| "subscript (PyDict d) i = Inl (KeyError (PyInt i))"
| "subscript _ i = Inl TypeError"

text \<open>\<^verbatim>\<open>isinstance(v, list)\<close>\<close>

fun isinstance_list :: "pyval \<Rightarrow> bool" where
  "isinstance_list (PyList xs) = True"
| "isinstance_list _ = False"

text \<open>\<^verbatim>\<open>v == 'literal'\<close>: only a string with the same characters is equal to a string.\<close>

fun eq_str :: "pyval \<Rightarrow> string \<Rightarrow> bool" where
  "eq_str (PyStr s) t = (s = t)"
| "eq_str _ t = False"

text \<open>\<^verbatim>\<open>v in ['a', 'b', ...]\<close>\<close>

definition in_strs :: "pyval \<Rightarrow> string list \<Rightarrow> bool" where
  "in_strs v ts = list_ex (eq_str v) ts"

section \<open>Float division by ten\<close>

text \<open>
  \<^verbatim>\<open>float(temperature) / 10\<close> divides a binary64 number by the integer 10, which is
  first converted to the float 10.0; the quotient is rounded to the nearest binary64
  number, ties to the one with an even significand. A binary64 number has 53 significant
  bits, its least exponent is \<open>-1074\<close>, and a magnitude that rounds to \<open>2 ^ 1024\<close>
  overflows to an infinity. Division by ten raises nothing.
\<close>

function log2_floor :: "int \<Rightarrow> int" where
  "log2_floor n = (if n < 2 then 0 else 1 + log2_floor (n div 2))"
  by pat_completeness auto
termination
  by (relation "measure nat") auto

declare log2_floor.simps [simp del]

definition two_pow :: "int \<Rightarrow> rat" where
  "two_pow e = (if 0 \<le> e then 2 ^ nat e else 1 / 2 ^ nat (- e))"

text \<open>The integer \<open>k\<close> with \<open>2 ^ k \<le> q < 2 ^ (k + 1)\<close>, for a positive \<open>q\<close>.\<close>

definition rat_log2 :: "rat \<Rightarrow> int" where
  "rat_log2 q =
     (let d = log2_floor (fst (quotient_of q)) - log2_floor (snd (quotient_of q))
      in if two_pow d \<le> q then d else d - 1)"

definition round_half_even :: "rat \<Rightarrow> int" where
  "round_half_even q =
     (let f = \<lfloor>q\<rfloor>; r = q - of_int f
      in if r < 1 / 2 then f else if 1 / 2 < r then f + 1 else if even f then f else f + 1)"

text \<open>The binary64 number nearest to a positive \<open>q\<close>; \<open>None\<close> is the overflow.\<close>

definition round_binary64 :: "rat \<Rightarrow> rat option" where
  "round_binary64 q =
     (let e = max (rat_log2 q - 52) (- 1074);
          r = of_int (round_half_even (q / two_pow e)) * two_pow e
      in if two_pow 1024 \<le> r then None else Some r)"

fun truediv_10 :: "pyfloat \<Rightarrow> pyfloat" where
  "truediv_10 (Finite q) =
     (if q = 0 then Finite 0
      else if 0 < q then (case round_binary64 (q / 10) of None \<Rightarrow> PosInf | Some r \<Rightarrow> Finite r)
      else (case round_binary64 (- q / 10) of None \<Rightarrow> NegInf
            | Some r \<Rightarrow> if r = 0 then NegZero else Finite (- r)))"
| "truediv_10 NegZero = NegZero"
| "truediv_10 PosInf = PosInf"
| "truediv_10 NegInf = NegInf"
| "truediv_10 NaN = NaN"

declare truediv_10.simps(1) [simp del]

section \<open>The message classifiers\<close>

text \<open>
  \<^verbatim>\<open>return json.loads(payload)['msg'] in ["CURRENT-STATE", "STATE-CHANGE"]\<close>
\<close>

definition is_state_message :: "builtins \<Rightarrow> string \<Rightarrow> error + bool" where
  "is_state_message b payload =
     ebind (json_loads b payload) (\<lambda>json_message.
     ebind (getitem json_message ''msg'') (\<lambda>msg.
     Inr (in_strs msg [''CURRENT-STATE'', ''STATE-CHANGE''])))"

text \<open>
  \<^verbatim>\<open>json_message = json.loads(payload)\<close>

  \<^verbatim>\<open>return json_message['msg'] in ["ENVIRONMENTAL-CURRENT-SENSOR-DATA"]\<close>
\<close>

definition is_environmental_state_message :: "builtins \<Rightarrow> string \<Rightarrow> error + bool" where
  "is_environmental_state_message b payload =
     ebind (json_loads b payload) (\<lambda>json_message.
     ebind (getitem json_message ''msg'') (\<lambda>msg.
     Inr (in_strs msg [''ENVIRONMENTAL-CURRENT-SENSOR-DATA''])))"

section \<open>The field extractor\<close>

text \<open>
  \<^verbatim>\<open>return state[field][1] if isinstance(state[field], list) else state[field]\<close>

  The condition is evaluated first, then the chosen branch looks the key up again.
  \<open>get_field_value\<close> is \<^verbatim>\<open>DysonPureCoolV2State._get_field_value\<close> and
  \<open>env_get_field_value\<close> is \<^verbatim>\<open>DysonEnvironmentalSensorV2State.__get_field_value\<close>.
\<close>

definition get_field_value :: "pyval \<Rightarrow> string \<Rightarrow> error + pyval" where
  "get_field_value state field =
     ebind (getitem state field) (\<lambda>c.
       if isinstance_list c then ebind (getitem state field) (\<lambda>l. subscript l 1)
       else getitem state field)"

definition env_get_field_value :: "pyval \<Rightarrow> string \<Rightarrow> error + pyval" where
  "env_get_field_value state field =
     ebind (getitem state field) (\<lambda>c.
       if isinstance_list c then ebind (getitem state field) (\<lambda>l. subscript l 1)
       else getitem state field)"

section \<open>The device state\<close>

text \<open>
  An object of \<^verbatim>\<open>DysonPureCoolV2State\<close>: the attribute \<^verbatim>\<open>_state\<close> (the decoded
  \<^verbatim>\<open>product-state\<close>) and the fifteen extracted values, kept as they come.
\<close>

record pure_cool_v2_state =
  product_state :: pyval
  fan_power :: pyval
  front_direction :: pyval
  auto_mode :: pyval
  oscillation_status :: pyval
  oscillation :: pyval
  night_mode :: pyval
  continuous_monitoring :: pyval
  fan_state :: pyval
  night_mode_speed :: pyval
  speed :: pyval
  carbon_filter_state :: pyval
  hepa_filter_state :: pyval
  sleep_timer :: pyval
  oscillation_angle_low :: pyval
  oscillation_angle_high :: pyval

text \<open>
  \<^verbatim>\<open>DysonPureCoolV2State.__init__\<close>: the statements run in the order of the source, and
  the first one that raises ends the construction; the object exists only when the last
  one has run.
\<close>

definition DysonPureCoolV2State_init :: "builtins \<Rightarrow> string \<Rightarrow> error + pure_cool_v2_state" where
  "DysonPureCoolV2State_init b payload =
     ebind (json_loads b payload) (\<lambda>json_message.
     ebind (getitem json_message ''product-state'') (\<lambda>st.
     ebind (get_field_value st ''fpwr'') (\<lambda>fpwr.
     ebind (get_field_value st ''fdir'') (\<lambda>fdir.
     ebind (get_field_value st ''auto'') (\<lambda>auto.
     ebind (get_field_value st ''oscs'') (\<lambda>oscs.
     ebind (get_field_value st ''oson'') (\<lambda>oson.
     ebind (get_field_value st ''nmod'') (\<lambda>nmod.
     ebind (get_field_value st ''rhtm'') (\<lambda>rhtm.
     ebind (get_field_value st ''fnst'') (\<lambda>fnst.
     ebind (get_field_value st ''nmdv'') (\<lambda>nmdv.
     ebind (get_field_value st ''fnsp'') (\<lambda>fnsp.
     ebind (get_field_value st ''cflr'') (\<lambda>cflr.
     ebind (get_field_value st ''hflr'') (\<lambda>hflr.
     ebind (get_field_value st ''sltm'') (\<lambda>sltm.
     ebind (get_field_value st ''osal'') (\<lambda>osal.
     ebind (get_field_value st ''osau'') (\<lambda>osau.
     Inr \<lparr> product_state = st, fan_power = fpwr, front_direction = fdir, auto_mode = auto,
           oscillation_status = oscs, oscillation = oson, night_mode = nmod,
           continuous_monitoring = rhtm, fan_state = fnst, night_mode_speed = nmdv,
           speed = fnsp, carbon_filter_state = cflr, hepa_filter_state = hflr,
           sleep_timer = sltm, oscillation_angle_low = osal,
           oscillation_angle_high = osau \<rparr>)))))))))))))))))"


section \<open>The environmental sensor state\<close>

text \<open>
  An object of \<^verbatim>\<open>DysonEnvironmentalSensorV2State\<close>. The temperature is the integer
  \<open>0\<close> or a float; the other attributes are integers. (\<open>env_sleep_timer\<close> is the
  attribute \<^verbatim>\<open>_sleep_timer\<close> of this class.)
\<close>

record environmental_sensor_v2_state =
  temperature :: pyval
  humidity :: int
  particulate_matter_25 :: int
  particulate_matter_10 :: int
  volatile_organic_compounds :: int
  nitrogen_dioxide :: int
  p25r :: int
  p10r :: int
  env_sleep_timer :: int

text \<open>\<^verbatim>\<open>DysonEnvironmentalSensorV2State.__init__\<close>, statement by statement.\<close>

definition DysonEnvironmentalSensorV2State_init ::
    "builtins \<Rightarrow> string \<Rightarrow> error + environmental_sensor_v2_state" where
  "DysonEnvironmentalSensorV2State_init b payload =
     ebind (json_loads b payload) (\<lambda>json_message.
     ebind (getitem json_message ''data'') (\<lambda>data.
     ebind (env_get_field_value data ''tact'') (\<lambda>tact.
     ebind (if eq_str tact ''OFF'' then Inr (PyInt 0)
            else ebind (py_float b tact) (\<lambda>x. Inr (PyFloat (truediv_10 x)))) (\<lambda>temperature'.
     ebind (env_get_field_value data ''hact'') (\<lambda>hact.
     ebind (if eq_str hact ''OFF'' then Inr 0 else py_int b hact) (\<lambda>humidity'.
     ebind (ebind (env_get_field_value data ''pm25'') (py_int b)) (\<lambda>pm25.
     ebind (ebind (env_get_field_value data ''pm10'') (py_int b)) (\<lambda>pm10.
     ebind (env_get_field_value data ''va10'') (\<lambda>voc.
     ebind (if eq_str voc ''INIT'' then Inr 0 else py_int b voc) (\<lambda>voc'.
     ebind (ebind (env_get_field_value data ''noxl'') (py_int b)) (\<lambda>noxl.
     ebind (ebind (env_get_field_value data ''p25r'') (py_int b)) (\<lambda>p25r'.
     ebind (ebind (env_get_field_value data ''p10r'') (py_int b)) (\<lambda>p10r'.
     ebind (env_get_field_value data ''sltm'') (\<lambda>sltm.
     ebind (if eq_str sltm ''OFF'' then Inr 0 else py_int b sltm) (\<lambda>sltm'.
     Inr \<lparr> temperature = temperature', humidity = humidity',
           particulate_matter_25 = pm25, particulate_matter_10 = pm10,
           volatile_organic_compounds = voc', nitrogen_dioxide = noxl,
           p25r = p25r', p10r = p10r', env_sleep_timer = sltm' \<rparr>)))))))))))))))"

text \<open>
  The two shapes of normalisation in that constructor, named for the proofs:
  \<^verbatim>\<open>0 if temperature == 'OFF' else float(temperature) / 10\<close> and
  \<^verbatim>\<open>0 if v == sentinel else int(v)\<close>.
\<close>

definition temperature_of :: "builtins \<Rightarrow> pyval \<Rightarrow> error + pyval" where
  "temperature_of b v =
     (if eq_str v ''OFF'' then Inr (PyInt 0)
      else ebind (py_float b v) (\<lambda>x. Inr (PyFloat (truediv_10 x))))"

definition zero_if :: "builtins \<Rightarrow> string \<Rightarrow> pyval \<Rightarrow> error + int" where
  "zero_if b sentinel v = (if eq_str v sentinel then Inr 0 else py_int b v)"

section \<open>The diagnostic text\<close>

text \<open>
  Modelled from the spec: \<^verbatim>\<open>printable_fields\<close> of \<^verbatim>\<open>libpurecoollink.utils\<close>, which
  both \<^verbatim>\<open>__repr__\<close> methods call and which is not among the sources. The spec says that
  the text lists the fields as \<open>name=value\<close> pairs and keeps only the fields whose value
  is not null. The text of a value that is a string is the string; the text of any other
  value is left to \<^verbatim>\<open>str\<close>.
\<close>

definition field_text :: "builtins \<Rightarrow> pyval \<Rightarrow> error + string" where
  "field_text b v = (case v of PyStr s \<Rightarrow> Inr s | _ \<Rightarrow> py_str b v)"

definition pair_text :: "builtins \<Rightarrow> string \<times> pyval \<Rightarrow> error + string" where
  "pair_text b f = ebind (field_text b (snd f)) (\<lambda>t. Inr (fst f @ ''='' @ t))"







section \<open>The normalisation table of the environmental fields\<close>


definition sentinel :: "string \<Rightarrow> string option" where
  "sentinel k =
     (if k = ''tact'' \<or> k = ''hact'' \<or> k = ''sltm'' then Some ''OFF''
      else if k = ''va10'' then Some ''INIT'' else None)"



text \<open>A scalar of the protocol: a string or a number.\<close>

fun is_scalar :: "pyval \<Rightarrow> bool" where
  "is_scalar (PyStr s) = True"
| "is_scalar (PyInt n) = True"
| "is_scalar (PyFloat x) = True"
| "is_scalar _ = False"

section \<open>A sample interpretation\<close>

text \<open>
  To run the model on messages, the primitives are fixed on a small range of inputs where
  their answer is plain: the decoder on eleven messages, \<^verbatim>\<open>int\<close> and \<^verbatim>\<open>float\<close> on
  integers, short strings of decimal digits and a few strings that are not numbers,
  \<^verbatim>\<open>str\<close> on strings, integers and small integral floats. Everywhere else the sample
  primitives answer \<open>Unmodelled\<close>. No theorem about the module depends on them.
\<close>

definition is_digit :: "char \<Rightarrow> bool" where
  "is_digit c = (48 \<le> (of_char c :: nat) \<and> (of_char c :: nat) \<le> 57)"

definition is_letter :: "char \<Rightarrow> bool" where
  "is_letter c =
     ((65 \<le> (of_char c :: nat) \<and> (of_char c :: nat) \<le> 90) \<or>
      (97 \<le> (of_char c :: nat) \<and> (of_char c :: nat) \<le> 122))"

definition digits_value :: "string \<Rightarrow> int" where
  "digits_value s = foldl (\<lambda>a c. 10 * a + (int (of_char c) - 48)) 0 s"

definition all_digits :: "string \<Rightarrow> bool" where
  "all_digits s = (s \<noteq> [] \<and> length s \<le> 15 \<and> list_all is_digit s)"

function digits_of :: "int \<Rightarrow> string" where
  "digits_of n = (if n < 10 then [char_of (48 + n)] else digits_of (n div 10) @ [char_of (48 + n mod 10)])"
  by pat_completeness auto
termination
  by (relation "measure nat") auto

declare digits_of.simps [simp del]

definition sample_int :: "pyval \<Rightarrow> error + int" where
  "sample_int v =
     (case v of
        PyInt n \<Rightarrow> Inr n
      | PyStr s \<Rightarrow>
          if all_digits s then Inr (digits_value s)
          else if s \<noteq> [] \<and> list_all is_letter s then Inl ValueError
          else Inl Unmodelled
      | PyNone \<Rightarrow> Inl TypeError
      | PyList xs \<Rightarrow> Inl TypeError
      | PyDict d \<Rightarrow> Inl TypeError
      | _ \<Rightarrow> Inl Unmodelled)"

definition sample_float :: "pyval \<Rightarrow> error + pyfloat" where
  "sample_float v =
     (case v of
        PyFloat x \<Rightarrow> Inr x
      | PyInt n \<Rightarrow> if \<bar>n\<bar> \<le> 2 ^ 53 then Inr (Finite (of_int n)) else Inl Unmodelled
      | PyStr s \<Rightarrow>
          if all_digits s then Inr (Finite (of_int (digits_value s)))
          else if s = ''OFF'' \<or> s = ''INIT'' then Inl ValueError
          else Inl Unmodelled
      | PyNone \<Rightarrow> Inl TypeError
      | PyList xs \<Rightarrow> Inl TypeError
      | PyDict d \<Rightarrow> Inl TypeError
      | _ \<Rightarrow> Inl Unmodelled)"

definition sample_str :: "pyval \<Rightarrow> error + string" where
  "sample_str v =
     (case v of
        PyStr s \<Rightarrow> Inr s
      | PyInt n \<Rightarrow> if 0 \<le> n \<and> n < 10 ^ 15 then Inr (digits_of n) else Inl Unmodelled
      | PyFloat (Finite q) \<Rightarrow>
          if 0 \<le> q \<and> q < 10 ^ 15 \<and> of_int \<lfloor>q\<rfloor> = q then Inr (digits_of \<lfloor>q\<rfloor> @ ''.0'')
          else Inl Unmodelled
      | _ \<Rightarrow> Inl Unmodelled)"

text \<open>The eleven messages, as received, and what \<^verbatim>\<open>json.loads\<close> makes of each.\<close>

definition text_current_state :: string where
  \<open>text_current_state = ''{"msg": "CURRENT-STATE", "product-state": {"fpwr": "ON", "fdir": "ON", "auto": "OFF", "oscs": "ON", "oson": "ON", "nmod": "OFF", "rhtm": "ON", "fnst": "FAN", "nmdv": "0004", "fnsp": "0005", "cflr": "0100", "hflr": "0100", "sltm": "OFF", "osal": "0136", "osau": "0226"}}''\<close>

definition doc_current_state :: pyval where
  "doc_current_state = PyDict
     [(''msg'', PyStr ''CURRENT-STATE''),
      (''product-state'', PyDict
        [(''fpwr'', PyStr ''ON''), (''fdir'', PyStr ''ON''), (''auto'', PyStr ''OFF''),
         (''oscs'', PyStr ''ON''), (''oson'', PyStr ''ON''), (''nmod'', PyStr ''OFF''),
         (''rhtm'', PyStr ''ON''), (''fnst'', PyStr ''FAN''), (''nmdv'', PyStr ''0004''),
         (''fnsp'', PyStr ''0005''), (''cflr'', PyStr ''0100''), (''hflr'', PyStr ''0100''),
         (''sltm'', PyStr ''OFF''), (''osal'', PyStr ''0136''), (''osau'', PyStr ''0226'')])]"

definition text_state_change :: string where
  \<open>text_state_change = ''{"msg": "STATE-CHANGE", "product-state": {"fpwr": ["OFF", "ON"], "fdir": ["ON", "ON"], "auto": ["OFF", "OFF"], "oscs": ["OFF", "ON"], "oson": ["OFF", "ON"], "nmod": ["OFF", "OFF"], "rhtm": ["ON", "ON"], "fnst": ["OFF", "FAN"], "nmdv": ["0004", "0004"], "fnsp": ["0002", "0005"], "cflr": ["0100", "0099"], "hflr": ["0100", "0100"], "sltm": ["OFF", null], "osal": ["0136", "0090"], "osau": ["0226", "0180"]}}''\<close>

definition doc_state_change :: pyval where
  "doc_state_change = PyDict
     [(''msg'', PyStr ''STATE-CHANGE''),
      (''product-state'', PyDict
        [(''fpwr'', PyList [PyStr ''OFF'', PyStr ''ON'']),
         (''fdir'', PyList [PyStr ''ON'', PyStr ''ON'']),
         (''auto'', PyList [PyStr ''OFF'', PyStr ''OFF'']),
         (''oscs'', PyList [PyStr ''OFF'', PyStr ''ON'']),
         (''oson'', PyList [PyStr ''OFF'', PyStr ''ON'']),
         (''nmod'', PyList [PyStr ''OFF'', PyStr ''OFF'']),
         (''rhtm'', PyList [PyStr ''ON'', PyStr ''ON'']),
         (''fnst'', PyList [PyStr ''OFF'', PyStr ''FAN'']),
         (''nmdv'', PyList [PyStr ''0004'', PyStr ''0004'']),
         (''fnsp'', PyList [PyStr ''0002'', PyStr ''0005'']),
         (''cflr'', PyList [PyStr ''0100'', PyStr ''0099'']),
         (''hflr'', PyList [PyStr ''0100'', PyStr ''0100'']),
         (''sltm'', PyList [PyStr ''OFF'', PyNone]),
         (''osal'', PyList [PyStr ''0136'', PyStr ''0090'']),
         (''osau'', PyList [PyStr ''0226'', PyStr ''0180''])])]"

definition text_environment :: string where
  \<open>text_environment = ''{"msg": "ENVIRONMENTAL-CURRENT-SENSOR-DATA", "data": {"tact": "2960", "hact": "0045", "pm25": "0014", "pm10": "0009", "va10": "INIT", "noxl": "0004", "p25r": "0016", "p10r": "0010", "sltm": "OFF"}}''\<close>

definition doc_environment :: pyval where
  "doc_environment = PyDict
     [(''msg'', PyStr ''ENVIRONMENTAL-CURRENT-SENSOR-DATA''),
      (''data'', PyDict
        [(''tact'', PyStr ''2960''), (''hact'', PyStr ''0045''), (''pm25'', PyStr ''0014''),
         (''pm10'', PyStr ''0009''), (''va10'', PyStr ''INIT''), (''noxl'', PyStr ''0004''),
         (''p25r'', PyStr ''0016''), (''p10r'', PyStr ''0010''), (''sltm'', PyStr ''OFF'')])]"

definition text_environment_off :: string where
  \<open>text_environment_off = ''{"msg": "ENVIRONMENTAL-CURRENT-SENSOR-DATA", "data": {"tact": "OFF", "hact": "OFF", "pm25": "0014", "pm10": "0009", "va10": "0003", "noxl": "0004", "p25r": "0016", "p10r": "0010", "sltm": "0015"}}''\<close>

definition doc_environment_off :: pyval where
  "doc_environment_off = PyDict
     [(''msg'', PyStr ''ENVIRONMENTAL-CURRENT-SENSOR-DATA''),
      (''data'', PyDict
        [(''tact'', PyStr ''OFF''), (''hact'', PyStr ''OFF''), (''pm25'', PyStr ''0014''),
         (''pm10'', PyStr ''0009''), (''va10'', PyStr ''0003''), (''noxl'', PyStr ''0004''),
         (''p25r'', PyStr ''0016''), (''p10r'', PyStr ''0010''), (''sltm'', PyStr ''0015'')])]"

definition text_malformed :: string where
  "text_malformed = ''not json''"

definition text_empty_list :: string where
  \<open>text_empty_list = ''{"msg": "CURRENT-STATE", "product-state": {"fpwr": []}}''\<close>

definition doc_empty_list :: pyval where
  "doc_empty_list = PyDict
     [(''msg'', PyStr ''CURRENT-STATE''), (''product-state'', PyDict [(''fpwr'', PyList [])])]"

definition text_no_osau :: string where
  \<open>text_no_osau = ''{"msg": "CURRENT-STATE", "product-state": {"fpwr": "ON", "fdir": "ON", "auto": "OFF", "oscs": "ON", "oson": "ON", "nmod": "OFF", "rhtm": "ON", "fnst": "FAN", "nmdv": "0004", "fnsp": "0005", "cflr": "0100", "hflr": "0100", "sltm": "OFF", "osal": "0136"}}''\<close>

definition doc_no_osau :: pyval where
  "doc_no_osau = PyDict
     [(''msg'', PyStr ''CURRENT-STATE''),
      (''product-state'', PyDict
        [(''fpwr'', PyStr ''ON''), (''fdir'', PyStr ''ON''), (''auto'', PyStr ''OFF''),
         (''oscs'', PyStr ''ON''), (''oson'', PyStr ''ON''), (''nmod'', PyStr ''OFF''),
         (''rhtm'', PyStr ''ON''), (''fnst'', PyStr ''FAN''), (''nmdv'', PyStr ''0004''),
         (''fnsp'', PyStr ''0005''), (''cflr'', PyStr ''0100''), (''hflr'', PyStr ''0100''),
         (''sltm'', PyStr ''OFF''), (''osal'', PyStr ''0136'')])]"

definition text_bare :: string where
  \<open>text_bare = ''{"msg": "HELLO"}''\<close>

definition doc_bare :: pyval where
  "doc_bare = PyDict [(''msg'', PyStr ''HELLO'')]"

definition text_environment_bad :: string where
  \<open>text_environment_bad = ''{"msg": "ENVIRONMENTAL-CURRENT-SENSOR-DATA", "data": {"tact": "2960", "hact": "0045", "pm25": "INIT", "pm10": "0009", "va10": "INIT", "noxl": "0004", "p25r": "0016", "p10r": "0010", "sltm": "OFF"}}''\<close>

definition doc_environment_bad :: pyval where
  "doc_environment_bad = PyDict
     [(''msg'', PyStr ''ENVIRONMENTAL-CURRENT-SENSOR-DATA''),
      (''data'', PyDict
        [(''tact'', PyStr ''2960''), (''hact'', PyStr ''0045''), (''pm25'', PyStr ''INIT''),
         (''pm10'', PyStr ''0009''), (''va10'', PyStr ''INIT''), (''noxl'', PyStr ''0004''),
         (''p25r'', PyStr ''0016''), (''p10r'', PyStr ''0010''), (''sltm'', PyStr ''OFF'')])]"

definition text_environment_no_sltm :: string where
  \<open>text_environment_no_sltm = ''{"msg": "ENVIRONMENTAL-CURRENT-SENSOR-DATA", "data": {"tact": "2960", "hact": "0045", "pm25": "0014", "pm10": "0009", "va10": "INIT", "noxl": "0004", "p25r": "0016", "p10r": "0010"}}''\<close>

definition doc_environment_no_sltm :: pyval where
  "doc_environment_no_sltm = PyDict
     [(''msg'', PyStr ''ENVIRONMENTAL-CURRENT-SENSOR-DATA''),
      (''data'', PyDict
        [(''tact'', PyStr ''2960''), (''hact'', PyStr ''0045''), (''pm25'', PyStr ''0014''),
         (''pm10'', PyStr ''0009''), (''va10'', PyStr ''INIT''), (''noxl'', PyStr ''0004''),
         (''p25r'', PyStr ''0016''), (''p10r'', PyStr ''0010'')])]"

definition text_environment_bad_no_sltm :: string where
  \<open>text_environment_bad_no_sltm = ''{"msg": "ENVIRONMENTAL-CURRENT-SENSOR-DATA", "data": {"tact": "2960", "hact": "0045", "pm25": "INIT", "pm10": "0009", "va10": "INIT", "noxl": "0004", "p25r": "0016", "p10r": "0010"}}''\<close>

definition doc_environment_bad_no_sltm :: pyval where
  "doc_environment_bad_no_sltm = PyDict
     [(''msg'', PyStr ''ENVIRONMENTAL-CURRENT-SENSOR-DATA''),
      (''data'', PyDict
        [(''tact'', PyStr ''2960''), (''hact'', PyStr ''0045''), (''pm25'', PyStr ''INIT''),
         (''pm10'', PyStr ''0009''), (''va10'', PyStr ''INIT''), (''noxl'', PyStr ''0004''),
         (''p25r'', PyStr ''0016''), (''p10r'', PyStr ''0010'')])]"

definition sample_messages :: "(string \<times> (error + pyval)) list" where
  "sample_messages =
     [(text_malformed, Inl JSONDecodeError),
      (text_bare, Inr doc_bare),
      (text_empty_list, Inr doc_empty_list),
      (text_current_state, Inr doc_current_state),
      (text_state_change, Inr doc_state_change),
      (text_no_osau, Inr doc_no_osau),
      (text_environment, Inr doc_environment),
      (text_environment_off, Inr doc_environment_off),
      (text_environment_bad, Inr doc_environment_bad),
      (text_environment_no_sltm, Inr doc_environment_no_sltm),
      (text_environment_bad_no_sltm, Inr doc_environment_bad_no_sltm)]"

definition sample_loads :: "string \<Rightarrow> error + pyval" where
  "sample_loads payload =
     (case map_of sample_messages payload of None \<Rightarrow> Inl Unmodelled | Some r \<Rightarrow> r)"

definition sample_py :: builtins where
  "sample_py = \<lparr> json_loads = sample_loads, py_int = sample_int, py_float = sample_float,
                 py_str = sample_str \<rparr>"

text \<open>The object the constructor builds from \<open>text_environment\<close>.\<close>

definition sample_environment :: environmental_sensor_v2_state where
  "sample_environment = \<lparr> temperature = PyFloat (Finite 296), humidity = 45,
     particulate_matter_25 = 14, particulate_matter_10 = 9, volatile_organic_compounds = 0,
     nitrogen_dioxide = 4, p25r = 16, p10r = 10, env_sleep_timer = 0 \<rparr>"

text \<open>The objects built from \<open>text_environment_off\<close> and \<open>text_state_change\<close>.\<close>

definition sample_environment_off :: environmental_sensor_v2_state where
  "sample_environment_off = \<lparr> temperature = PyInt 0, humidity = 0,
     particulate_matter_25 = 14, particulate_matter_10 = 9, volatile_organic_compounds = 3,
     nitrogen_dioxide = 4, p25r = 16, p10r = 10, env_sleep_timer = 15 \<rparr>"

definition sample_state_change :: pure_cool_v2_state where
  "sample_state_change = \<lparr>
     product_state = PyDict
        [(''fpwr'', PyList [PyStr ''OFF'', PyStr ''ON'']),
         (''fdir'', PyList [PyStr ''ON'', PyStr ''ON'']),
         (''auto'', PyList [PyStr ''OFF'', PyStr ''OFF'']),
         (''oscs'', PyList [PyStr ''OFF'', PyStr ''ON'']),
         (''oson'', PyList [PyStr ''OFF'', PyStr ''ON'']),
         (''nmod'', PyList [PyStr ''OFF'', PyStr ''OFF'']),
         (''rhtm'', PyList [PyStr ''ON'', PyStr ''ON'']),
         (''fnst'', PyList [PyStr ''OFF'', PyStr ''FAN'']),
         (''nmdv'', PyList [PyStr ''0004'', PyStr ''0004'']),
         (''fnsp'', PyList [PyStr ''0002'', PyStr ''0005'']),
         (''cflr'', PyList [PyStr ''0100'', PyStr ''0099'']),
         (''hflr'', PyList [PyStr ''0100'', PyStr ''0100'']),
         (''sltm'', PyList [PyStr ''OFF'', PyNone]),
         (''osal'', PyList [PyStr ''0136'', PyStr ''0090'']),
         (''osau'', PyList [PyStr ''0226'', PyStr ''0180''])],
     fan_power = PyStr ''ON'', front_direction = PyStr ''ON'', auto_mode = PyStr ''OFF'',
     oscillation_status = PyStr ''ON'', oscillation = PyStr ''ON'', night_mode = PyStr ''OFF'',
     continuous_monitoring = PyStr ''ON'', fan_state = PyStr ''FAN'',
     night_mode_speed = PyStr ''0004'', speed = PyStr ''0005'',
     carbon_filter_state = PyStr ''0099'', hepa_filter_state = PyStr ''0100'',
     sleep_timer = PyNone, oscillation_angle_low = PyStr ''0090'',
     oscillation_angle_high = PyStr ''0180'' \<rparr>"

section \<open>Properties of the field extractor\<close>

lemma ebind_Inr [simp]: "ebind (Inr v) f = f v"
  by (simp add: ebind_def)

lemma ebind_Inl [simp]: "ebind (Inl e) f = Inl e"
  by (simp add: ebind_def)

lemma env_get_field_value_eq: "env_get_field_value = get_field_value"
  by (intro ext) (simp add: env_get_field_value_def get_field_value_def)

lemma get_field_value_absent:
  "map_of d k = None \<Longrightarrow> get_field_value (PyDict d) k = Inl (KeyError (PyStr k))"
  by (simp add: get_field_value_def)

lemma get_field_value_list:
  "map_of d k = Some (PyList xs) \<Longrightarrow> get_field_value (PyDict d) k = seq_index xs 1"
  by (simp add: get_field_value_def)

lemma get_field_value_other:
  "map_of d k = Some v \<Longrightarrow> \<not> isinstance_list v \<Longrightarrow> get_field_value (PyDict d) k = Inr v"
  by (simp add: get_field_value_def)

lemma seq_index_1: "seq_index xs 1 = (if 2 \<le> length xs then Inr (xs ! 1) else Inl IndexError)"
  by (auto simp: seq_index_def)

text \<open>
  C1. For a decoded mapping \<open>d\<close> and a key \<open>k\<close>, the field extractor of both state classes
  returns the element at position 1 when the value at \<open>k\<close> is a two-element sequence,
  returns the value unchanged when it is a scalar (a string or a number), and fails with
  the missing-key error when \<open>k\<close> is absent from \<open>d\<close>.
\<close>

theorem get_field_value_current:
  "(map_of d k = Some (PyList [previous, current]) \<longrightarrow>
      get_field_value (PyDict d) k = Inr current \<and>
      env_get_field_value (PyDict d) k = Inr current) \<and>
   (map_of d k = Some v \<and> is_scalar v \<longrightarrow>
      get_field_value (PyDict d) k = Inr v \<and>
      env_get_field_value (PyDict d) k = Inr v) \<and>
   (map_of d k = None \<longrightarrow>
      get_field_value (PyDict d) k = Inl (KeyError (PyStr k)) \<and>
      env_get_field_value (PyDict d) k = Inl (KeyError (PyStr k)))"
proof (intro conjI impI)
  assume "map_of d k = Some (PyList [previous, current])"
  then have "get_field_value (PyDict d) k = Inr current"
    by (simp add: get_field_value_list seq_index_1)
  then show "get_field_value (PyDict d) k = Inr current"
    and "env_get_field_value (PyDict d) k = Inr current"
    by (simp_all add: env_get_field_value_eq)
next
  assume "map_of d k = Some v \<and> is_scalar v"
  then have "map_of d k = Some v" and "\<not> isinstance_list v"
    by (cases v; simp)+
  then have "get_field_value (PyDict d) k = Inr v"
    by (rule get_field_value_other)
  then show "get_field_value (PyDict d) k = Inr v"
    and "env_get_field_value (PyDict d) k = Inr v"
    by (simp_all add: env_get_field_value_eq)
next
  assume "map_of d k = None"
  then have "get_field_value (PyDict d) k = Inl (KeyError (PyStr k))"
    by (rule get_field_value_absent)
  then show "get_field_value (PyDict d) k = Inl (KeyError (PyStr k))"
    and "env_get_field_value (PyDict d) k = Inl (KeyError (PyStr k))"
    by (simp_all add: env_get_field_value_eq)
qed

theorem get_field_value_current_witness:
  "get_field_value (PyDict [(''fpwr'', PyList [PyStr ''OFF'', PyStr ''ON''])]) ''fpwr''
     = Inr (PyStr ''ON'') \<and>
   env_get_field_value (PyDict [(''tact'', PyList [PyStr ''2950'', PyStr ''2960''])]) ''tact''
     = Inr (PyStr ''2960'') \<and>
   get_field_value (PyDict [(''fpwr'', PyStr ''ON'')]) ''fpwr'' = Inr (PyStr ''ON'') \<and>
   env_get_field_value (PyDict [(''pm25'', PyInt 14)]) ''pm25'' = Inr (PyInt 14) \<and>
   get_field_value (PyDict [(''fpwr'', PyStr ''ON'')]) ''fdir''
     = Inl (KeyError (PyStr ''fdir'')) \<and>
   env_get_field_value (PyDict []) ''tact'' = Inl (KeyError (PyStr ''tact''))"
  using
    get_field_value_current [of "[(''fpwr'', PyList [PyStr ''OFF'', PyStr ''ON''])]" "''fpwr''"
      "PyStr ''OFF''" "PyStr ''ON''"]
    get_field_value_current [of "[(''tact'', PyList [PyStr ''2950'', PyStr ''2960''])]" "''tact''"
      "PyStr ''2950''" "PyStr ''2960''"]
    get_field_value_current [of "[(''fpwr'', PyStr ''ON'')]" "''fpwr''" _ _ "PyStr ''ON''"]
    get_field_value_current [of "[(''pm25'', PyInt 14)]" "''pm25''" _ _ "PyInt 14"]
    get_field_value_current [of "[(''fpwr'', PyStr ''ON'')]" "''fdir''"]
    get_field_value_current [of "[]" "''tact''"]
  by simp

text \<open>
  C10. The shape test of the extractor is \<^verbatim>\<open>isinstance(..., list)\<close>: a list of length at
  least 2 gives its element at index 1 whatever its length, a value that is not a list
  (a string of several characters included) is returned as it is and never indexed, and
  a list of length 0 or 1 fails with the index error.
\<close>

theorem get_field_value_list_shape:
  "(map_of d k = Some (PyList xs) \<and> 2 \<le> length xs \<longrightarrow>
      get_field_value (PyDict d) k = Inr (xs ! 1) \<and>
      env_get_field_value (PyDict d) k = Inr (xs ! 1)) \<and>
   (map_of d k = Some v \<and> \<not> isinstance_list v \<longrightarrow>
      get_field_value (PyDict d) k = Inr v \<and>
      env_get_field_value (PyDict d) k = Inr v) \<and>
   (map_of d k = Some (PyList xs) \<and> length xs < 2 \<longrightarrow>
      get_field_value (PyDict d) k = Inl IndexError \<and>
      env_get_field_value (PyDict d) k = Inl IndexError)"
  by (simp add: env_get_field_value_eq get_field_value_list get_field_value_other seq_index_1)

theorem get_field_value_list_shape_witness:
  "get_field_value (PyDict [(''oson'', PyList [PyStr ''a'', PyStr ''b'', PyStr ''c''])]) ''oson''
     = Inr (PyStr ''b'') \<and>
   env_get_field_value (PyDict [(''hact'', PyList [PyInt 1, PyInt 2, PyInt 3, PyInt 4])]) ''hact''
     = Inr (PyInt 2) \<and>
   get_field_value (PyDict [(''fnsp'', PyStr ''AUTO'')]) ''fnsp'' = Inr (PyStr ''AUTO'') \<and>
   env_get_field_value (PyDict [(''data'', PyDict [])]) ''data'' = Inr (PyDict []) \<and>
   get_field_value (PyDict [(''fpwr'', PyList [])]) ''fpwr'' = Inl IndexError \<and>
   env_get_field_value (PyDict [(''tact'', PyList [PyStr ''2960''])]) ''tact'' = Inl IndexError"
  using
    get_field_value_list_shape [of "[(''oson'', PyList [PyStr ''a'', PyStr ''b'', PyStr ''c''])]"
      "''oson''" "[PyStr ''a'', PyStr ''b'', PyStr ''c'']"]
    get_field_value_list_shape [of "[(''hact'', PyList [PyInt 1, PyInt 2, PyInt 3, PyInt 4])]"
      "''hact''" "[PyInt 1, PyInt 2, PyInt 3, PyInt 4]"]
    get_field_value_list_shape [of "[(''fnsp'', PyStr ''AUTO'')]" "''fnsp''" _ "PyStr ''AUTO''"]
    get_field_value_list_shape [of "[(''data'', PyDict [])]" "''data''" _ "PyDict []"]
    get_field_value_list_shape [of "[(''fpwr'', PyList [])]" "''fpwr''" "[]"]
    get_field_value_list_shape [of "[(''tact'', PyList [PyStr ''2960''])]" "''tact''"
      "[PyStr ''2960'']"]
  by simp


section \<open>The division by ten rounds to a nearest binary64 number\<close>

text \<open>
  The result of \<open>round_binary64\<close> is an integer of at most 53 bits times a power of two
  not below \<open>2 ^ -1074\<close>, at most half a unit in the last place away from the exact
  quotient; an integer below \<open>2 ^ 53\<close> is its own rounding, so ten times such an integer
  divided by ten is that integer.
\<close>

lemma log2_floor_nonneg: "0 \<le> log2_floor n"
proof (induction n rule: log2_floor.induct)
  case (1 n)
  then show ?case by (subst log2_floor.simps) auto
qed

lemma log2_floor_bounds:
  "1 \<le> n \<Longrightarrow> 2 ^ nat (log2_floor n) \<le> n \<and> n < 2 * 2 ^ nat (log2_floor n)"
proof (induction n rule: log2_floor.induct)
  case (1 n)
  show ?case
  proof (cases "n < 2")
    case True
    with "1.prems" have "n = 1" by simp
    then show ?thesis by (simp add: log2_floor.simps)
  next
    case False
    then have half: "1 \<le> n div 2" by simp
    define k where "k = nat (log2_floor (n div 2))"
    from "1.IH" [OF False half]
    have ih: "2 ^ k \<le> n div 2" "n div 2 < 2 * 2 ^ k"
      by (simp_all add: k_def)
    have "log2_floor n = 1 + log2_floor (n div 2)"
      using False by (subst log2_floor.simps) simp
    then have eq: "nat (log2_floor n) = Suc k"
      using log2_floor_nonneg [of "n div 2"] by (simp add: k_def)
    from ih show ?thesis unfolding eq by simp linarith
  qed
qed

lemma two_pow_power_int: "two_pow e = power_int 2 e"
  by (simp add: two_pow_def power_int_def field_simps)

lemma two_pow_pos: "0 < two_pow e"
  by (simp add: two_pow_power_int)

lemma two_pow_add: "two_pow (a + b) = two_pow a * two_pow b"
  by (simp add: two_pow_power_int power_int_add)

lemma two_pow_diff: "two_pow (a - b) = two_pow a / two_pow b"
  by (simp add: two_pow_power_int power_int_diff)

lemma two_pow_nat: "two_pow (int n) = 2 ^ n"
  by (simp add: two_pow_def)

lemma log2_floor_two_pow:
  assumes "1 \<le> n"
  shows "two_pow (log2_floor n) \<le> of_int n" and "of_int n < two_pow (log2_floor n + 1)"
proof -
  from log2_floor_bounds [OF assms]
  have "(2::int) ^ nat (log2_floor n) \<le> n" and "n < 2 * 2 ^ nat (log2_floor n)"
    by simp_all
  then have "(of_int (2 ^ nat (log2_floor n)) :: rat) \<le> of_int n"
    and "(of_int n :: rat) < of_int (2 * 2 ^ nat (log2_floor n))"
    by (simp_all only: of_int_le_iff of_int_less_iff)
  moreover have "two_pow (log2_floor n) = 2 ^ nat (log2_floor n)"
    using log2_floor_nonneg [of n] by (simp add: two_pow_def)
  moreover have "two_pow (log2_floor n + 1) = 2 * 2 ^ nat (log2_floor n)"
    using log2_floor_nonneg [of n] by (simp add: two_pow_def nat_add_distrib)
  ultimately show "two_pow (log2_floor n) \<le> of_int n"
    and "of_int n < two_pow (log2_floor n + 1)"
    by simp_all
qed

lemma rat_log2_bounds:
  assumes "0 < q"
  shows "two_pow (rat_log2 q) \<le> q \<and> q < two_pow (rat_log2 q + 1)"
proof -
  obtain a b where ab: "quotient_of q = (a, b)" by (cases "quotient_of q")
  then have b: "0 < b" and q: "q = of_int a / of_int b"
    using quotient_of_denom_pos quotient_of_div by blast+
  with assms have a: "0 < a"
    by (simp add: zero_less_divide_iff)
  define la where "la = log2_floor a"
  define lb where "lb = log2_floor b"
  define d where "d = la - lb"
  have la: "two_pow la \<le> of_int a" "of_int a < two_pow (la + 1)"
    using log2_floor_two_pow [of a] a by (simp_all add: la_def)
  have lb: "two_pow lb \<le> of_int b" "of_int b < two_pow (lb + 1)"
    using log2_floor_two_pow [of b] b by (simp_all add: lb_def)
  have bpos: "(0::rat) < of_int b" using b by simp
  have "q * two_pow lb \<le> q * of_int b"
    using lb(1) assms by (simp add: mult_left_mono)
  also have "\<dots> = of_int a" using bpos by (simp add: q)
  also have "\<dots> < two_pow (la + 1)" by (rule la(2))
  finally have "q < two_pow (la + 1) / two_pow lb"
    using two_pow_pos [of lb] by (simp add: pos_less_divide_eq)
  then have upper: "q < two_pow (d + 1)"
    by (simp add: d_def two_pow_diff [symmetric] algebra_simps)
  have "two_pow la \<le> of_int a" by (rule la(1))
  also have "\<dots> = q * of_int b" using bpos by (simp add: q)
  also have "\<dots> < q * two_pow (lb + 1)"
    using lb(2) assms by (simp add: mult_strict_left_mono)
  finally have "two_pow la / two_pow (lb + 1) < q"
    using two_pow_pos [of "lb + 1"] by (simp add: pos_divide_less_eq)
  then have lower: "two_pow (d - 1) < q"
    by (simp add: d_def two_pow_diff [symmetric] algebra_simps)
  have r: "rat_log2 q = (if two_pow d \<le> q then d else d - 1)"
    by (simp add: rat_log2_def ab la_def lb_def d_def Let_def)
  show ?thesis
  proof (cases "two_pow d \<le> q")
    case True
    with upper r show ?thesis by simp
  next
    case False
    with lower r show ?thesis by simp
  qed
qed

lemma round_half_even_near: "\<bar>of_int (round_half_even x) - x\<bar> \<le> 1 / 2"
proof -
  have "of_int \<lfloor>x\<rfloor> \<le> x" "x < of_int \<lfloor>x\<rfloor> + 1" by linarith+
  then show ?thesis
    by (auto simp: round_half_even_def Let_def abs_le_iff)
qed

lemma round_half_even_of_int [simp]: "round_half_even (of_int n) = n"
  by (simp add: round_half_even_def Let_def)

lemma round_half_even_mono:
  "x \<le> of_int n \<Longrightarrow> round_half_even x \<le> n"
proof -
  assume le: "x \<le> of_int n"
  have fl: "\<lfloor>x\<rfloor> \<le> n" using le by (simp add: floor_le_iff)
  show ?thesis
  proof (cases "\<lfloor>x\<rfloor> = n")
    case True
    then have "x = of_int n" using le by linarith
    then show ?thesis by simp
  next
    case False
    with fl have "\<lfloor>x\<rfloor> + 1 \<le> n" by simp
    then show ?thesis by (auto simp: round_half_even_def Let_def)
  qed
qed


lemma two_pow_mono: "a \<le> b \<Longrightarrow> two_pow a \<le> two_pow b"
  by (simp add: two_pow_power_int power_int_increasing)

lemma two_pow_less_imp: "two_pow a < two_pow b \<Longrightarrow> a < b"
  using two_pow_mono [of b a] by (cases "a < b") auto

lemma round_half_even_nonneg: "0 \<le> x \<Longrightarrow> 0 \<le> round_half_even x"
  by (auto simp: round_half_even_def Let_def)

lemma round_binary64_sound:
  assumes "0 < q" and "round_binary64 q = Some r"
  shows "\<exists>m. r = of_int m * two_pow (max (rat_log2 q - 52) (- 1074)) \<and>
           0 \<le> m \<and> m \<le> 2 ^ 53 \<and>
           \<bar>r - q\<bar> \<le> two_pow (max (rat_log2 q - 52) (- 1074)) / 2 \<and>
           r < two_pow 1024"
proof -
  define e where "e = max (rat_log2 q - 52) (- 1074)"
  define m where "m = round_half_even (q / two_pow e)"
  have pos: "0 < two_pow e" by (rule two_pow_pos)
  from assms(2) have r: "r = of_int m * two_pow e" and small: "r < two_pow 1024"
    by (simp_all add: round_binary64_def Let_def e_def [symmetric] m_def [symmetric]
        split: if_splits)
  have "0 \<le> q / two_pow e" using assms(1) pos by simp
  then have m0: "0 \<le> m" unfolding m_def by (rule round_half_even_nonneg)
  have "q < two_pow (rat_log2 q + 1)" using rat_log2_bounds [OF assms(1)] by simp
  also have "\<dots> = two_pow 53 * two_pow (rat_log2 q - 52)"
    by (simp add: two_pow_add [symmetric] add.commute)
  also have "\<dots> \<le> two_pow 53 * two_pow e"
    using two_pow_mono [of "rat_log2 q - 52" e] two_pow_pos [of 53]
    by (simp add: e_def)
  finally have "q / two_pow e \<le> two_pow 53"
    using pos by (simp add: pos_divide_le_eq)
  also have "two_pow 53 = of_int (2 ^ 53)" by (simp add: two_pow_def)
  finally have m53: "m \<le> 2 ^ 53" unfolding m_def by (rule round_half_even_mono)
  have "r - q = (of_int m - q / two_pow e) * two_pow e"
    using pos by (simp add: r left_diff_distrib)
  then have "\<bar>r - q\<bar> = \<bar>of_int m - q / two_pow e\<bar> * \<bar>two_pow e\<bar>"
    by (simp only: abs_mult)
  also have "\<dots> = \<bar>of_int m - q / two_pow e\<bar> * two_pow e"
    using pos by simp
  also have "\<dots> \<le> 1 / 2 * two_pow e"
    using round_half_even_near [of "q / two_pow e"] pos
    by (simp only: m_def mult_right_mono less_imp_le)
  finally have "\<bar>r - q\<bar> \<le> two_pow e / 2" by simp
  with r m0 m53 small show ?thesis unfolding e_def by blast
qed

lemma round_binary64_of_int:
  assumes "0 < n" and "n < 2 ^ 53"
  shows "round_binary64 (of_int n) = Some (of_int n)"
proof -
  define k where "k = rat_log2 (of_int n)"
  have q: "(0::rat) < of_int n" using assms(1) by simp
  from rat_log2_bounds [OF q]
  have lo: "two_pow k \<le> of_int n" and hi: "of_int n < two_pow (k + 1)"
    by (simp_all add: k_def)
  have "(of_int n :: rat) < of_int (2 ^ 53)" using assms(2) by (simp only: of_int_less_iff)
  then have lt53: "(of_int n :: rat) < two_pow 53" by (simp add: two_pow_def)
  with lo have "two_pow k < two_pow 53" by simp
  then have k53: "k < 53" by (rule two_pow_less_imp)
  have "(1::rat) \<le> of_int n" using assms(1) by simp
  with hi have "two_pow 0 < two_pow (k + 1)" by (simp add: two_pow_def)
  then have k0: "0 \<le> k" using two_pow_less_imp [of 0 "k + 1"] by simp
  define j where "j = nat (52 - k)"
  have e: "max (k - 52) (- 1074) = k - 52" using k0 by simp
  have tp: "two_pow (k - 52) = 1 / 2 ^ j"
    using k53 by (simp add: two_pow_def j_def)
  have "of_int n / two_pow (k - 52) = (of_int (n * 2 ^ j) :: rat)"
    by (simp add: tp)
  then have m: "round_half_even (of_int n / two_pow (k - 52)) = n * 2 ^ j"
    by (simp only: round_half_even_of_int)
  have inv: "of_int (round_half_even (of_int n / two_pow (k - 52))) * two_pow (k - 52)
      = (of_int n :: rat)"
    by (simp only: m) (simp add: tp)
  have "(of_int n :: rat) < two_pow 1024"
    using lt53 two_pow_mono [of 53 1024] by simp
  then show ?thesis
    unfolding round_binary64_def Let_def k_def [symmetric] e inv by simp
qed

lemma truediv_10_exact:
  assumes "0 < n" and "n < 2 ^ 53"
  shows "truediv_10 (Finite (of_int (10 * n))) = Finite (of_int n)"
  using assms round_binary64_of_int [OF assms]
  by (simp add: truediv_10.simps(1))

section \<open>What a constructor's outcome says about its steps\<close>

lemma env_init_steps:
  "DysonEnvironmentalSensorV2State_init b payload =
     ebind (json_loads b payload) (\<lambda>json_message.
     ebind (getitem json_message ''data'') (\<lambda>data.
     ebind (env_get_field_value data ''tact'') (\<lambda>tact.
     ebind (temperature_of b tact) (\<lambda>temperature'.
     ebind (env_get_field_value data ''hact'') (\<lambda>hact.
     ebind (zero_if b ''OFF'' hact) (\<lambda>humidity'.
     ebind (ebind (env_get_field_value data ''pm25'') (py_int b)) (\<lambda>pm25.
     ebind (ebind (env_get_field_value data ''pm10'') (py_int b)) (\<lambda>pm10.
     ebind (env_get_field_value data ''va10'') (\<lambda>voc.
     ebind (zero_if b ''INIT'' voc) (\<lambda>voc'.
     ebind (ebind (env_get_field_value data ''noxl'') (py_int b)) (\<lambda>noxl.
     ebind (ebind (env_get_field_value data ''p25r'') (py_int b)) (\<lambda>p25r'.
     ebind (ebind (env_get_field_value data ''p10r'') (py_int b)) (\<lambda>p10r'.
     ebind (env_get_field_value data ''sltm'') (\<lambda>sltm.
     ebind (zero_if b ''OFF'' sltm) (\<lambda>sltm'.
     Inr \<lparr> temperature = temperature', humidity = humidity',
           particulate_matter_25 = pm25, particulate_matter_10 = pm10,
           volatile_organic_compounds = voc', nitrogen_dioxide = noxl,
           p25r = p25r', p10r = p10r', env_sleep_timer = sltm' \<rparr>)))))))))))))))"
  unfolding DysonEnvironmentalSensorV2State_init_def temperature_of_def zero_if_def ..

lemma ebind_eq_Inr: "ebind m f = Inr y \<longleftrightarrow> (\<exists>v. m = Inr v \<and> f v = Inr y)"
  by (cases m) simp_all


lemma eq_str_iff: "eq_str v t \<longleftrightarrow> v = PyStr t"
  by (cases v) auto







lemma zero_if_Inr: "zero_if b s v = Inr n \<longleftrightarrow> (if v = PyStr s then n = 0 else py_int b v = Inr n)"
  by (auto simp: zero_if_def eq_str_iff)




section \<open>The sample interpretation at work\<close>

lemmas sample_texts = text_malformed_def text_bare_def text_empty_list_def text_current_state_def
  text_state_change_def text_no_osau_def text_environment_def text_environment_off_def
  text_environment_bad_def text_environment_no_sltm_def text_environment_bad_no_sltm_def

lemma loads_malformed: "json_loads sample_py text_malformed = Inl JSONDecodeError"
  by (simp add: sample_py_def sample_loads_def sample_messages_def sample_texts)

lemma loads_bare: "json_loads sample_py text_bare = Inr doc_bare"
  by (simp add: sample_py_def sample_loads_def sample_messages_def sample_texts)


lemma loads_current_state: "json_loads sample_py text_current_state = Inr doc_current_state"
  by (simp add: sample_py_def sample_loads_def sample_messages_def sample_texts)

lemma loads_state_change: "json_loads sample_py text_state_change = Inr doc_state_change"
  by (simp add: sample_py_def sample_loads_def sample_messages_def sample_texts)


lemma loads_environment: "json_loads sample_py text_environment = Inr doc_environment"
  by (simp add: sample_py_def sample_loads_def sample_messages_def sample_texts)

lemma loads_environment_off: "json_loads sample_py text_environment_off = Inr doc_environment_off"
  by (simp add: sample_py_def sample_loads_def sample_messages_def sample_texts)




lemma sample_int_digits [simp]:
  "py_int sample_py (PyStr ''0045'') = Inr 45"
  "py_int sample_py (PyStr ''0014'') = Inr 14"
  "py_int sample_py (PyStr ''0009'') = Inr 9"
  "py_int sample_py (PyStr ''0004'') = Inr 4"
  "py_int sample_py (PyStr ''0016'') = Inr 16"
  "py_int sample_py (PyStr ''0010'') = Inr 10"
  "py_int sample_py (PyStr ''0003'') = Inr 3"
  "py_int sample_py (PyStr ''0015'') = Inr 15"
  "py_int sample_py (PyStr ''INIT'') = Inl ValueError"
  "py_int sample_py (PyStr ''OFF'') = Inl ValueError"
  by (simp_all add: sample_py_def sample_int_def all_digits_def is_digit_def is_letter_def
      digits_value_def)

lemma sample_float_2960 [simp]: "py_float sample_py (PyStr ''2960'') = Inr (Finite 2960)"
  by (simp add: sample_py_def sample_float_def all_digits_def is_digit_def digits_value_def)

lemma truediv_10_2960 [simp]: "truediv_10 (Finite 2960) = Finite 296"
  using truediv_10_exact [of 296] by simp

lemma init_environment:
  "DysonEnvironmentalSensorV2State_init sample_py text_environment = Inr sample_environment"
  by (simp add: env_init_steps loads_environment doc_environment_def
      env_get_field_value_def temperature_of_def zero_if_def sample_environment_def)


section \<open>The classifiers and the decode error\<close>

text \<open>
  C4. When the payload decodes to a mapping that has the key \<open>msg\<close>,
  \<open>is_state_message\<close> returns the truth value of "the value at \<open>msg\<close> is
  \<open>CURRENT-STATE\<close> or \<open>STATE-CHANGE\<close>": true for these two tags, false for every other
  value, the tag of the environmental messages included.
\<close>

theorem is_state_message_iff:
  assumes "json_loads b payload = Inr (PyDict d)" and "map_of d ''msg'' = Some tag"
  shows "is_state_message b payload =
           Inr (tag = PyStr ''CURRENT-STATE'' \<or> tag = PyStr ''STATE-CHANGE'')"
  using assms by (simp add: is_state_message_def in_strs_def eq_str_iff)

theorem is_state_message_iff_witness:
  "is_state_message sample_py text_current_state = Inr True \<and>
   is_state_message sample_py text_state_change = Inr True \<and>
   is_state_message sample_py text_environment = Inr False \<and>
   is_state_message sample_py text_bare = Inr False"
  using
    is_state_message_iff [OF loads_current_state [unfolded doc_current_state_def],
      of "PyStr ''CURRENT-STATE''"]
    is_state_message_iff [OF loads_state_change [unfolded doc_state_change_def],
      of "PyStr ''STATE-CHANGE''"]
    is_state_message_iff [OF loads_environment [unfolded doc_environment_def],
      of "PyStr ''ENVIRONMENTAL-CURRENT-SENSOR-DATA''"]
    is_state_message_iff [OF loads_bare [unfolded doc_bare_def], of "PyStr ''HELLO''"]
  by simp

text \<open>
  C5. When the payload decodes to a mapping that has the key \<open>msg\<close>,
  \<open>is_environmental_state_message\<close> returns true if and only if the value at \<open>msg\<close> is
  \<open>ENVIRONMENTAL-CURRENT-SENSOR-DATA\<close>.
\<close>

theorem is_environmental_state_message_iff:
  assumes "json_loads b payload = Inr (PyDict d)" and "map_of d ''msg'' = Some tag"
  shows "is_environmental_state_message b payload =
           Inr (tag = PyStr ''ENVIRONMENTAL-CURRENT-SENSOR-DATA'')"
  using assms by (simp add: is_environmental_state_message_def in_strs_def eq_str_iff)

theorem is_environmental_state_message_iff_witness:
  "is_environmental_state_message sample_py text_environment = Inr True \<and>
   is_environmental_state_message sample_py text_environment_off = Inr True \<and>
   is_environmental_state_message sample_py text_current_state = Inr False"
  using
    is_environmental_state_message_iff [OF loads_environment [unfolded doc_environment_def],
      of "PyStr ''ENVIRONMENTAL-CURRENT-SENSOR-DATA''"]
    is_environmental_state_message_iff [OF loads_environment_off [unfolded doc_environment_off_def],
      of "PyStr ''ENVIRONMENTAL-CURRENT-SENSOR-DATA''"]
    is_environmental_state_message_iff [OF loads_current_state [unfolded doc_current_state_def],
      of "PyStr ''CURRENT-STATE''"]
  by simp

text \<open>
  C7. When the decoder raises on the payload (the payload is not well-formed), both
  classifiers and both constructors raise the same error: none of them returns a value.
\<close>

theorem decode_error_propagates:
  assumes "json_loads b payload = Inl e"
  shows "is_state_message b payload = Inl e \<and>
         is_environmental_state_message b payload = Inl e \<and>
         DysonPureCoolV2State_init b payload = Inl e \<and>
         DysonEnvironmentalSensorV2State_init b payload = Inl e"
  using assms
  by (simp add: is_state_message_def is_environmental_state_message_def
      DysonPureCoolV2State_init_def env_init_steps)

theorem decode_error_propagates_witness:
  "json_loads sample_py text_malformed = Inl JSONDecodeError \<and>
   is_state_message sample_py text_malformed = Inl JSONDecodeError \<and>
   is_environmental_state_message sample_py text_malformed = Inl JSONDecodeError \<and>
   DysonPureCoolV2State_init sample_py text_malformed = Inl JSONDecodeError \<and>
   DysonEnvironmentalSensorV2State_init sample_py text_malformed = Inl JSONDecodeError"
  using decode_error_propagates [OF loads_malformed] loads_malformed by simp

section \<open>Construction is all or nothing\<close>







section \<open>Normalisation of the environmental fields\<close>

lemma init_environment_off:
  "DysonEnvironmentalSensorV2State_init sample_py text_environment_off = Inr sample_environment_off"
  by (simp add: env_init_steps loads_environment_off
      doc_environment_off_def env_get_field_value_def temperature_of_def zero_if_def
      sample_environment_off_def)



text \<open>
  C3. When the environmental constructor builds an object: humidity and sleep timer are
  \<open>0\<close> if the extracted value is \<open>OFF\<close> and otherwise its \<^verbatim>\<open>int\<close>; the volatile organic
  compounds are \<open>0\<close> if the extracted value is \<open>INIT\<close> and otherwise its \<^verbatim>\<open>int\<close>; the
  two particulate matters, the nitrogen dioxide, \<open>p25r\<close> and \<open>p10r\<close> are the \<^verbatim>\<open>int\<close> of
  the values extracted at \<open>pm25\<close>, \<open>pm10\<close>, \<open>noxl\<close>, \<open>p25r\<close> and \<open>p10r\<close>, whatever these
  values are.
\<close>

theorem environmental_integers:
  assumes "DysonEnvironmentalSensorV2State_init b payload = Inr s"
  shows "\<exists>json_message data hact pm25 pm10 va10 noxl r25 r10 sltm.
     json_loads b payload = Inr json_message \<and> getitem json_message ''data'' = Inr data \<and>
     env_get_field_value data ''hact'' = Inr hact \<and>
       (hact = PyStr ''OFF'' \<longrightarrow> humidity s = 0) \<and>
       (hact \<noteq> PyStr ''OFF'' \<longrightarrow> py_int b hact = Inr (humidity s)) \<and>
     env_get_field_value data ''sltm'' = Inr sltm \<and>
       (sltm = PyStr ''OFF'' \<longrightarrow> env_sleep_timer s = 0) \<and>
       (sltm \<noteq> PyStr ''OFF'' \<longrightarrow> py_int b sltm = Inr (env_sleep_timer s)) \<and>
     env_get_field_value data ''va10'' = Inr va10 \<and>
       (va10 = PyStr ''INIT'' \<longrightarrow> volatile_organic_compounds s = 0) \<and>
       (va10 \<noteq> PyStr ''INIT'' \<longrightarrow> py_int b va10 = Inr (volatile_organic_compounds s)) \<and>
     env_get_field_value data ''pm25'' = Inr pm25 \<and>
       py_int b pm25 = Inr (particulate_matter_25 s) \<and>
     env_get_field_value data ''pm10'' = Inr pm10 \<and>
       py_int b pm10 = Inr (particulate_matter_10 s) \<and>
     env_get_field_value data ''noxl'' = Inr noxl \<and> py_int b noxl = Inr (nitrogen_dioxide s) \<and>
     env_get_field_value data ''p25r'' = Inr r25 \<and> py_int b r25 = Inr (p25r s) \<and>
     env_get_field_value data ''p10r'' = Inr r10 \<and> py_int b r10 = Inr (p10r s)"
  using assms unfolding env_init_steps
  by (auto simp: ebind_eq_Inr zero_if_Inr)

theorem environmental_integers_witness:
  "DysonEnvironmentalSensorV2State_init sample_py text_environment = Inr sample_environment \<and>
   humidity sample_environment = 45 \<and> env_sleep_timer sample_environment = 0 \<and>
   volatile_organic_compounds sample_environment = 0 \<and>
   particulate_matter_25 sample_environment = 14 \<and>
   particulate_matter_10 sample_environment = 9 \<and>
   nitrogen_dioxide sample_environment = 4 \<and>
   p25r sample_environment = 16 \<and> p10r sample_environment = 10 \<and>
   DysonEnvironmentalSensorV2State_init sample_py text_environment_off
     = Inr sample_environment_off \<and>
   humidity sample_environment_off = 0 \<and> env_sleep_timer sample_environment_off = 15 \<and>
   volatile_organic_compounds sample_environment_off = 3"
proof -
  from environmental_integers [OF init_environment]
  have "humidity sample_environment = 45 \<and> env_sleep_timer sample_environment = 0 \<and>
    volatile_organic_compounds sample_environment = 0 \<and>
    particulate_matter_25 sample_environment = 14 \<and>
    particulate_matter_10 sample_environment = 9 \<and>
    nitrogen_dioxide sample_environment = 4 \<and>
    p25r sample_environment = 16 \<and> p10r sample_environment = 10"
    by (simp add: loads_environment doc_environment_def env_get_field_value_def)
  moreover from environmental_integers [OF init_environment_off]
  have "humidity sample_environment_off = 0 \<and> env_sleep_timer sample_environment_off = 15 \<and>
    volatile_organic_compounds sample_environment_off = 3"
    by (simp add: loads_environment_off doc_environment_off_def env_get_field_value_def)
  ultimately show ?thesis
    by (simp add: init_environment init_environment_off)
qed




section \<open>The diagnostic text of a state\<close>

lemma init_state_change:
  "DysonPureCoolV2State_init sample_py text_state_change = Inr sample_state_change"
  by (simp add: DysonPureCoolV2State_init_def loads_state_change doc_state_change_def
      get_field_value_def seq_index_def sample_state_change_def)


lemma pair_text_str [simp]: "pair_text b (n, PyStr t) = Inr (n @ ''='' @ t)"
  by (simp add: pair_text_def field_text_def)






end
